theory Spec2Isabelle
  imports Complex_Main "HOL-Library.Word" "HOL-Library.Log_Nat"
begin

section \<open>The camera colour picker (CameraColorPicker component)\<close>

text \<open>
  A shallow embedding of the \<open>CameraColorPicker\<close> React component, in the version with
  draggable sampling points. Every handler of the component is a function from the
  component's state to its new state; what the platform decides (whether the camera
  request or the clipboard write succeeds, what the container's bounding box is, which
  frame the video shows) is a parameter of the handler.
\<close>

subsection \<open>JavaScript numbers\<close>

text \<open>
  A JavaScript \<open>number\<close> is an IEEE 754 double: a finite value or one of \<open>Infinity\<close>,
  \<open>-Infinity\<close> and \<open>NaN\<close>. A finite double is carried by the real number it stands
  for; the numbers a handler receives from the platform (pointer coordinates, bounding
  boxes, video sizes) are doubles already. The sign of zero is not kept: a zero divisor
  stands for \<open>+0\<close>, which is what a bounding box of no extent has.
\<close>

datatype jsnum = Fin real | PInf | NInf | NaN

text \<open>
  Every arithmetic operation gives the double nearest to the exact result, a tie going
  to the double with the even significand. \<open>binade x\<close> is the exponent of \<open>x\<close>, the
  \<open>e\<close> with \<open>2^e <= |x| < 2^(e+1)\<close>; the doubles of that exponent are the multiples of
  \<open>2^(e-52)\<close>, and below \<open>2^(-1022)\<close> the subnormal ones are the multiples of
  \<open>2^(-1074)\<close>. A result that rounds to \<open>2^1024\<close> or beyond overflows to an infinity.
\<close>

definition pow2 :: "int \<Rightarrow> real" where
  "pow2 k = (if 0 \<le> k then 2 ^ nat k else 1 / 2 ^ nat (- k))"

definition binade :: "real \<Rightarrow> int" where
  "binade x =
     (let a = \<bar>x\<bar>
      in if 1 \<le> a then bitlen \<lfloor>a\<rfloor> - 1 else - bitlen (\<lceil>1 / a\<rceil> - 1))"

definition roundEven :: "real \<Rightarrow> int" where
  "roundEven r =
     (let f = \<lfloor>r\<rfloor>; t = r - of_int f
      in if t < 1 / 2 then f
         else if 1 / 2 < t then f + 1
         else if even f then f else f + 1)"

definition fl :: "real \<Rightarrow> jsnum" where
  "fl x =
     (if x = 0 then Fin 0
      else
        (let q = pow2 (max (binade x) (- 1022) - 52);
             y = of_int (roundEven (x / q)) * q
         in if 2 ^ 1024 \<le> \<bar>y\<bar> then (if 0 < x then PInf else NInf) else Fin y))"

text \<open>\<open>a - b\<close> for two finite numbers.\<close>

definition js_sub :: "real \<Rightarrow> real \<Rightarrow> jsnum" where
  "js_sub a b = fl (a - b)"

text \<open>\<open>a / d\<close> for a finite divisor \<open>d\<close>.\<close>

fun js_div :: "jsnum \<Rightarrow> real \<Rightarrow> jsnum" where
  "js_div NaN d = NaN"
| "js_div PInf d = (if d < 0 then NInf else PInf)"
| "js_div NInf d = (if d < 0 then PInf else NInf)"
| "js_div (Fin a) d =
     (if d \<noteq> 0 then fl (a / d)
      else if a = 0 then NaN
      else if 0 < a then PInf else NInf)"

text \<open>\<open>a * m\<close> for a finite factor \<open>m\<close>.\<close>

fun js_mul :: "jsnum \<Rightarrow> real \<Rightarrow> jsnum" where
  "js_mul NaN m = NaN"
| "js_mul PInf m = (if m = 0 then NaN else if 0 < m then PInf else NInf)"
| "js_mul NInf m = (if m = 0 then NaN else if 0 < m then NInf else PInf)"
| "js_mul (Fin a) m = fl (a * m)"

text \<open>\<open>Math.min(c, v)\<close> and \<open>Math.max(c, v)\<close> for a finite \<open>c\<close>: \<open>NaN\<close> if \<open>v\<close> is.\<close>

fun js_min :: "real \<Rightarrow> jsnum \<Rightarrow> jsnum" where
  "js_min c NaN = NaN"
| "js_min c PInf = Fin c"
| "js_min c NInf = NInf"
| "js_min c (Fin a) = Fin (min c a)"

fun js_max :: "real \<Rightarrow> jsnum \<Rightarrow> jsnum" where
  "js_max c NaN = NaN"
| "js_max c PInf = PInf"
| "js_max c NInf = Fin c"
| "js_max c (Fin a) = Fin (max c a)"

text \<open>\<open>Math.floor\<close>.\<close>

fun js_floor :: "jsnum \<Rightarrow> jsnum" where
  "js_floor (Fin a) = Fin (of_int \<lfloor>a\<rfloor>)"
| "js_floor v = v"

text \<open>
  The conversion of a number to an \<open>[EnforceRange] long\<close> argument of a platform method
  (\<open>getImageData\<close> declares its coordinates so): a value that is not finite, or whose
  integer part does not fit 32 bits, is a \<open>TypeError\<close>; any other value is truncated
  towards zero.
\<close>

datatype Thrown = TypeError

fun toLong :: "jsnum \<Rightarrow> Thrown + int" where
  "toLong (Fin a) =
     (let t = (if a < 0 then - \<lfloor>- a\<rfloor> else \<lfloor>a\<rfloor>)
      in if - (2 ^ 31) \<le> t \<and> t \<le> 2 ^ 31 - 1 then Inr t else Inl TypeError)"
| "toLong v = Inl TypeError"

text \<open>The comparison \<open>lo <= v && v <= hi\<close>: false for \<open>NaN\<close>.\<close>

fun js_between :: "real \<Rightarrow> real \<Rightarrow> jsnum \<Rightarrow> bool" where
  "js_between lo hi (Fin a) = (lo \<le> a \<and> a \<le> hi)"
| "js_between lo hi v = False"

subsection \<open>Colours\<close>

record RGB =
  rgb_r :: nat
  rgb_g :: nat
  rgb_b :: nat

record ColorData =
  hex :: string
  rgb :: RGB

text \<open>
  \<open>x.toString(16)\<close> of a non-negative integer: its digits in base 16, lower case, with
  no leading zero.
\<close>

definition hexDigit :: "nat \<Rightarrow> char" where
  "hexDigit d = ''0123456789abcdef'' ! d"

function toString16 :: "nat \<Rightarrow> string" where
  "toString16 n =
     (if n < 16 then [hexDigit n] else toString16 (n div 16) @ [hexDigit (n mod 16)])"
  by pat_completeness auto
termination
  by (relation "measure id") auto

text \<open>\<open>s.padStart(n, c)\<close> for a one-character filler.\<close>

definition padStart :: "nat \<Rightarrow> char \<Rightarrow> string \<Rightarrow> string" where
  "padStart n c s = replicate (n - length s) c @ s"

text \<open>The function mapped over the three channels in \<open>rgbToHex\<close>.\<close>

definition channelHex :: "nat \<Rightarrow> string" where
  "channelHex x = padStart 2 CHR ''0'' (toString16 x)"

definition rgbToHex :: "nat \<Rightarrow> nat \<Rightarrow> nat \<Rightarrow> string" where
  "rgbToHex r g b = CHR ''#'' # concat (map channelHex [r, g, b])"

text \<open>The value of a lower-case hexadecimal digit, to read a colour string back.\<close>

definition hexValue :: "char \<Rightarrow> nat" where
  "hexValue c = (let k = (of_char c :: nat) in if 97 \<le> k then k - 87 else k - 48)"

definition black :: ColorData where
  "black = \<lparr>hex = ''#000000'', rgb = \<lparr>rgb_r = 0, rgb_g = 0, rgb_b = 0\<rparr>\<rparr>"

subsection \<open>The video, the canvas and the pixel read\<close>

type_synonym rgba = "8 word \<times> 8 word \<times> 8 word \<times> 8 word"

text \<open>
  The video element: its natural size and the frame it shows, a pixel for each column
  and row inside the size.
\<close>

record Video =
  videoWidth :: nat
  videoHeight :: nat
  frame :: "nat \<Rightarrow> nat \<Rightarrow> rgba"

text \<open>
  What the refs hold: \<open>videoRef.current\<close> (null or the element), whether
  \<open>canvasRef.current\<close> is there, and whether \<open>getContext('2d')\<close> gives a context.
\<close>

record Dom =
  videoEl :: "Video option"
  canvasEl :: bool
  ctx2d :: bool

text \<open>
  \<open>ctx.getImageData(x, y, 1, 1).data\<close> once the canvas has the video's size and the
  frame is drawn at its origin: the frame's pixel inside the canvas, transparent black
  outside it. It throws when a coordinate does not convert.
\<close>

definition getImageData :: "Video \<Rightarrow> jsnum \<Rightarrow> jsnum \<Rightarrow> Thrown + rgba" where
  "getImageData video x y =
     (case toLong x of
        Inl e \<Rightarrow> Inl e
      | Inr sx \<Rightarrow>
          (case toLong y of
             Inl e \<Rightarrow> Inl e
           | Inr sy \<Rightarrow>
               Inr (if 0 \<le> sx \<and> sx < int (videoWidth video) \<and>
                       0 \<le> sy \<and> sy < int (videoHeight video)
                    then frame video (nat sx) (nat sy)
                    else (0, 0, 0, 0))))"

text \<open>
  \<open>getColorAtPoint\<close> returns a sample, or ends by the exception of \<open>getImageData\<close>, which
  it does not catch.
\<close>

definition getColorAtPoint :: "Dom \<Rightarrow> jsnum \<Rightarrow> jsnum \<Rightarrow> Thrown + ColorData" where
  "getColorAtPoint refs x y =
     (case videoEl refs of
        None \<Rightarrow> Inr black
      | Some video \<Rightarrow>
          if \<not> canvasEl refs then Inr black
          else if \<not> ctx2d refs then Inr black
          else (case getImageData video x y of
                  Inl e \<Rightarrow> Inl e
                | Inr (r, g, b, a) \<Rightarrow>
                    Inr \<lparr>hex = rgbToHex (unat r) (unat g) (unat b),
                         rgb = \<lparr>rgb_r = unat r, rgb_g = unat g, rgb_b = unat b\<rparr>\<rparr>))"

subsection \<open>The component's state\<close>

record SamplingPoint =
  pt_x :: jsnum
  pt_y :: jsnum

datatype PointName = Top | Bottom

text \<open>A stream is known by its identity; its tracks run until they are stopped.\<close>

type_synonym MediaStream = nat

datatype ToastVariant = Default | Destructive

record Toast =
  title :: string
  description :: string
  variant :: ToastVariant

text \<open>
  The \<open>useState\<close> cells and \<open>streamRef\<close> of the component, followed by what its
  handlers do to the platform: the video's \<open>srcObject\<close>, the streams whose tracks are
  running, the number of camera requests that have not settled, the toasts shown, the
  lines sent to \<open>console.error\<close>, the clipboard, whether the sampling interval is
  registered, the times at which the pending \<open>setTimeout\<close> callbacks are due, and the
  clock (in milliseconds).
\<close>

record Picker =
  isActive :: bool
  topColor :: ColorData
  bottomColor :: ColorData
  copiedColor :: "string option"
  topPoint :: SamplingPoint
  bottomPoint :: SamplingPoint
  isDragging :: "PointName option"
  streamRef :: "MediaStream option"
  srcObject :: "MediaStream option"
  running :: "MediaStream set"
  pending :: nat
  toasts :: "Toast list"
  consoleErrors :: "string list"
  clipboard :: "string option"
  interval :: bool
  timeouts :: "nat list"
  clock :: nat

definition init :: Picker where
  "init =
     \<lparr>isActive = False,
      topColor = black,
      bottomColor = black,
      copiedColor = None,
      topPoint = \<lparr>pt_x = Fin 50, pt_y = Fin 20\<rparr>,
      bottomPoint = \<lparr>pt_x = Fin 50, pt_y = Fin 80\<rparr>,
      isDragging = None,
      streamRef = None,
      srcObject = None,
      running = {},
      pending = 0,
      toasts = [],
      consoleErrors = [],
      clipboard = None,
      interval = False,
      timeouts = [],
      clock = 0\<rparr>"

subsection \<open>The sampling tick\<close>

text \<open>
  \<open>Math.floor((p / 100) * d)\<close>: the conversion \<open>updateColors\<close> applies to each of the
  four percentages, with the video's width or height for \<open>d\<close>.
\<close>

definition toPixel :: "jsnum \<Rightarrow> nat \<Rightarrow> jsnum" where
  "toPixel p d = js_floor (js_mul (js_div p 100) (real d))"

text \<open>
  \<open>updateColors\<close> reads \<open>isActive\<close> and the two points as they were at the last render;
  the interval is registered again whenever one of them changes, so the callback that
  runs always holds the current ones. Both samples are taken before either colour is
  set, so an exception from a sample leaves both colours as they were.
\<close>

definition updateColors :: "Dom \<Rightarrow> Picker \<Rightarrow> Thrown + Picker" where
  "updateColors refs s =
     (case videoEl refs of
        None \<Rightarrow> Inr s
      | Some video \<Rightarrow>
          if \<not> isActive s then Inr s
          else if videoWidth video \<noteq> 0 \<and> videoHeight video \<noteq> 0 then
            (let topX = toPixel (pt_x (topPoint s)) (videoWidth video);
                 topY = toPixel (pt_y (topPoint s)) (videoHeight video);
                 bottomX = toPixel (pt_x (bottomPoint s)) (videoWidth video);
                 bottomY = toPixel (pt_y (bottomPoint s)) (videoHeight video)
             in (case getColorAtPoint refs topX topY of
                   Inl e \<Rightarrow> Inl e
                 | Inr newTopColor \<Rightarrow>
                     (case getColorAtPoint refs bottomX bottomY of
                        Inl e \<Rightarrow> Inl e
                      | Inr newBottomColor \<Rightarrow>
                          Inr (s\<lparr>topColor := newTopColor, bottomColor := newBottomColor\<rparr>))))
          else Inr s)"

text \<open>
  The effect on \<open>[updateColors, isActive]\<close>: its cleanup clears the interval of the
  render before, and it registers a new one only while the component is active. It runs
  when the render that follows a handler is committed.
\<close>

definition samplingEffect :: "Picker \<Rightarrow> Picker" where
  "samplingEffect s = s\<lparr>interval := isActive s\<rparr>"

text \<open>
  One firing of the interval's timer: the callback runs if the interval is registered.
  An exception that leaves the callback is reported by the platform; the state is the
  one from before the callback, and the interval goes on.
\<close>

definition tick :: "Dom \<Rightarrow> Picker \<Rightarrow> Picker" where
  "tick refs s =
     (if interval s then (case updateColors refs s of Inl e \<Rightarrow> s | Inr s' \<Rightarrow> s') else s)"

fun ticks :: "Dom list \<Rightarrow> Picker \<Rightarrow> Picker" where
  "ticks [] s = s"
| "ticks (refs # rest) s = ticks rest (tick refs s)"

subsection \<open>Dragging the points\<close>

record MouseEvent =
  clientX :: real
  clientY :: real

record DOMRect =
  rect_left :: real
  rect_top :: real
  rect_width :: real
  rect_height :: real

definition handleMouseDown :: "PointName \<Rightarrow> Picker \<Rightarrow> Picker" where
  "handleMouseDown point s = s\<lparr>isDragging := Some point\<rparr>"

text \<open>
  The second argument is \<open>containerRef.current\<close>, by its bounding box; \<open>None\<close> when the
  ref is null.
\<close>

definition handleMouseMove :: "MouseEvent \<Rightarrow> DOMRect option \<Rightarrow> Picker \<Rightarrow> Picker" where
  "handleMouseMove e container s =
     (case isDragging s of
        None \<Rightarrow> s
      | Some point \<Rightarrow>
          (case container of
             None \<Rightarrow> s
           | Some rect \<Rightarrow>
               (let x = js_mul (js_div (js_sub (clientX e) (rect_left rect)) (rect_width rect)) 100;
                    y = js_mul (js_div (js_sub (clientY e) (rect_top rect)) (rect_height rect)) 100;
                    clampedX = js_max 0 (js_min 100 x);
                    clampedY = js_max 0 (js_min 100 y)
                in (case point of
                      Top \<Rightarrow> s\<lparr>topPoint := \<lparr>pt_x = clampedX, pt_y = clampedY\<rparr>\<rparr>
                    | Bottom \<Rightarrow> s\<lparr>bottomPoint := \<lparr>pt_x = clampedX, pt_y = clampedY\<rparr>\<rparr>))))"

definition handleMouseUp :: "Picker \<Rightarrow> Picker" where
  "handleMouseUp s = s\<lparr>isDragging := None\<rparr>"

datatype DragEvent =
  MouseDown PointName
| MouseMove MouseEvent "DOMRect option"
| MouseUp

fun dragStep :: "Picker \<Rightarrow> DragEvent \<Rightarrow> Picker" where
  "dragStep s (MouseDown point) = handleMouseDown point s"
| "dragStep s (MouseMove e container) = handleMouseMove e container s"
| "dragStep s MouseUp = handleMouseUp s"

definition drag :: "DragEvent list \<Rightarrow> Picker \<Rightarrow> Picker" where
  "drag evs s = foldl dragStep s evs"

text \<open>Both coordinates of a point are numbers from 0 to 100.\<close>

definition pointInRange :: "SamplingPoint \<Rightarrow> bool" where
  "pointInRange p = (js_between 0 100 (pt_x p) \<and> js_between 0 100 (pt_y p))"

text \<open>
  The one way a move does not give a percentage: the quotient 0/0, when the box has no
  width and the pointer is at its left edge, or no height and the pointer at its top.
\<close>

fun zeroOverZero :: "DragEvent \<Rightarrow> bool" where
  "zeroOverZero (MouseMove e (Some rect)) =
     ((rect_width rect = 0 \<and> js_sub (clientX e) (rect_left rect) = Fin 0) \<or>
      (rect_height rect = 0 \<and> js_sub (clientY e) (rect_top rect) = Fin 0))"
| "zeroOverZero ev = False"

subsection \<open>Starting and stopping the camera\<close>

datatype CameraError = NotAllowedError | NotFoundError

definition cameraStarted :: Toast where
  "cameraStarted =
     \<lparr>title = ''Camera Started'',
      description = ''Color sampling is now active'',
      variant = Default\<rparr>"

definition cameraError :: Toast where
  "cameraError =
     \<lparr>title = ''Camera Error'',
      description = ''Unable to access camera. Please check permissions.'',
      variant = Destructive\<rparr>"

definition cameraStopped :: Toast where
  "cameraStopped =
     \<lparr>title = ''Camera Stopped'',
      description = ''Color sampling has been disabled'',
      variant = Default\<rparr>"

text \<open>
  \<open>startCamera\<close> is asynchronous. Up to its \<open>await\<close> it makes the camera request and
  touches nothing of the component.
\<close>

definition requestCamera :: "Picker \<Rightarrow> Picker" where
  "requestCamera s = s\<lparr>pending := Suc (pending s)\<rparr>"

text \<open>
  The rest of \<open>startCamera\<close>, given how \<open>getUserMedia\<close> settles: with a stream whose
  tracks run from then on, or with an error, which the \<open>catch\<close> block handles.
\<close>

definition startCamera :: "CameraError + MediaStream \<Rightarrow> Dom \<Rightarrow> Picker \<Rightarrow> Picker" where
  "startCamera settled refs s =
     (case settled of
        Inr stream \<Rightarrow>
          s\<lparr>running := insert stream (running s),
            streamRef := Some stream,
            srcObject := (if videoEl refs \<noteq> None then Some stream else srcObject s),
            isActive := True,
            toasts := toasts s @ [cameraStarted]\<rparr>
      | Inl err \<Rightarrow>
          s\<lparr>consoleErrors := consoleErrors s @ [''Error accessing camera:''],
            toasts := toasts s @ [cameraError]\<rparr>)"

definition stopCamera :: "Picker \<Rightarrow> Picker" where
  "stopCamera s =
     (let s1 = (case streamRef s of
                  None \<Rightarrow> s
                | Some stream \<Rightarrow> s\<lparr>running := running s - {stream}, streamRef := None\<rparr>)
      in s1\<lparr>isActive := False, toasts := toasts s1 @ [cameraStopped]\<rparr>)"

text \<open>A handler followed by the commit of the render it causes.\<close>

definition start :: "CameraError + MediaStream \<Rightarrow> Dom \<Rightarrow> Picker \<Rightarrow> Picker" where
  "start settled refs s = samplingEffect (startCamera settled refs s)"

definition stop :: "Picker \<Rightarrow> Picker" where
  "stop s = samplingEffect (stopCamera s)"

text \<open>
  The button, \<open>onClick={isActive ? stopCamera : startCamera}\<close>, and the camera requests:
  a click stops the camera or makes a request, and a request that settles runs the rest
  of \<open>startCamera\<close>.
\<close>

datatype ButtonEvent = Click | Settle "CameraError + MediaStream"

fun buttonStep :: "Dom \<Rightarrow> Picker \<Rightarrow> ButtonEvent \<Rightarrow> Picker" where
  "buttonStep refs s Click = (if isActive s then stop s else requestCamera s)"
| "buttonStep refs s (Settle settled) =
     (if pending s = 0 then s else start settled refs (s\<lparr>pending := pending s - 1\<rparr>))"

text \<open>A click whose camera request, if it makes one, settles before anything else happens.\<close>

definition clickButton :: "Dom \<Rightarrow> Picker \<Rightarrow> CameraError + MediaStream \<Rightarrow> Picker" where
  "clickButton refs s settled = buttonStep refs (buttonStep refs s Click) (Settle settled)"

text \<open>The streams whose tracks run and that the component holds no handle of.\<close>

definition leaked :: "Picker \<Rightarrow> MediaStream set" where
  "leaked s = running s - set_option (streamRef s)"

subsection \<open>Copying a colour\<close>

definition copied :: "string \<Rightarrow> Toast" where
  "copied h =
     \<lparr>title = ''Copied!'',
      description = ''Color '' @ h @ '' copied to clipboard'',
      variant = Default\<rparr>"

text \<open>\<open>copyToClipboard\<close>, given whether \<open>writeText\<close> resolves.\<close>

definition copyToClipboard :: "bool \<Rightarrow> string \<Rightarrow> Picker \<Rightarrow> Picker" where
  "copyToClipboard written h s =
     (if written then
        s\<lparr>clipboard := Some h,
          copiedColor := Some h,
          timeouts := timeouts s @ [clock s + 2000],
          toasts := toasts s @ [copied h]\<rparr>
      else s\<lparr>consoleErrors := consoleErrors s @ [''Failed to copy:'']\<rparr>)"


subsection \<open>Concrete inputs\<close>

text \<open>
  The inputs at which the closed theorems below run the component: refs with a 1280 by
  720 video showing an all-white frame, a container box of 800 by 450 at the origin of
  the viewport, and a container box of no extent.
\<close>

definition whiteRefs :: Dom where
  "whiteRefs =
     \<lparr>videoEl = Some \<lparr>videoWidth = 1280, videoHeight = 720,
                       frame = (\<lambda>x y. (255, 255, 255, 255))\<rparr>,
      canvasEl = True, ctx2d = True\<rparr>"

definition box :: DOMRect where
  "box = \<lparr>rect_left = 0, rect_top = 0, rect_width = 800, rect_height = 450\<rparr>"

definition flatBox :: DOMRect where
  "flatBox = \<lparr>rect_left = 0, rect_top = 0, rect_width = 0, rect_height = 0\<rparr>"

subsection \<open>An invariant of the button\<close>

text \<open>
  Every running stream is the one \<open>streamRef\<close> holds, a handle is held only while the
  component is active, and no camera request is waiting.
\<close>

definition held :: "Picker \<Rightarrow> bool" where
  "held s =
     (running s \<subseteq> set_option (streamRef s) \<and> (isActive s \<or> streamRef s = None) \<and>
      pending s = 0)"

section \<open>Properties\<close>

subsection \<open>The hexadecimal form of a channel\<close>

declare toString16.simps [simp del]

lemma below_16_cases:
  "d < 16 \<Longrightarrow> d \<in> {0, 1, 2, 3, 4, 5, 6, 7, 8, 9, 10, 11, 12, 13, 14, 15 :: nat}"
  by simp arith

lemma hexDigit_lowercase: "d < 16 \<Longrightarrow> hexDigit d \<in> set ''0123456789abcdef''"
  unfolding hexDigit_def by (rule nth_mem) simp

lemma hexValue_hexDigit: "d < 16 \<Longrightarrow> hexValue (hexDigit d) = d"
  using below_16_cases [of d] by (auto simp: hexDigit_def hexValue_def)

lemma channelHex_byte:
  assumes "v \<le> 255"
  shows "channelHex v = [hexDigit (v div 16), hexDigit (v mod 16)]"
proof (cases "v < 16")
  case True
  then show ?thesis
    by (simp add: channelHex_def padStart_def toString16.simps [of v] hexDigit_def)
next
  case False
  with assms have "v div 16 < 16" by simp
  with False show ?thesis
    by (simp add: channelHex_def padStart_def toString16.simps [of v]
        toString16.simps [of "v div 16"])
qed

lemma rgbToHex_white: "rgbToHex 255 255 255 = ''#ffffff''"
  by (simp add: rgbToHex_def channelHex_byte hexDigit_def)

lemma rgbToHex_black: "rgbToHex 0 0 0 = ''#000000''"
  by (simp add: rgbToHex_def channelHex_byte hexDigit_def)

text \<open>
  Claim C2. A channel value \<open>v\<close> from 0 to 255 becomes exactly two characters, both
  lower-case hexadecimal digits, which read back as \<open>v\<close> (so a value below 16 has the
  digit 0 in front): 5 becomes \<open>05\<close> and 255 becomes \<open>ff\<close>. \<open>rgbToHex\<close> puts the pairs
  of the three channels one after the other behind a \<open>#\<close>: six hexadecimal digits.
\<close>

theorem channelHex_two_lowercase_digits:
  assumes "v \<le> 255" and "r \<le> 255" and "g \<le> 255" and "b \<le> 255"
  shows "length (channelHex v) = 2 \<and>
         set (channelHex v) \<subseteq> set ''0123456789abcdef'' \<and>
         16 * hexValue (channelHex v ! 0) + hexValue (channelHex v ! 1) = v \<and>
         channelHex 5 = ''05'' \<and>
         channelHex 255 = ''ff'' \<and>
         rgbToHex r g b = CHR ''#'' # channelHex r @ channelHex g @ channelHex b \<and>
         length (rgbToHex r g b) = 7 \<and>
         set (tl (rgbToHex r g b)) \<subseteq> set ''0123456789abcdef''"
proof -
  have digits: "set (channelHex w) \<subseteq> set ''0123456789abcdef''" if "w \<le> 255" for w
  proof -
    from that have "w div 16 < 16" by simp
    moreover have "w mod 16 < 16" by simp
    ultimately show ?thesis
      using hexDigit_lowercase [of "w div 16"] hexDigit_lowercase [of "w mod 16"]
      by (simp add: channelHex_byte [OF that])
  qed
  have len: "length (channelHex v) = 2"
    by (simp add: channelHex_byte [OF assms(1)])
  have "v div 16 < 16" using assms(1) by simp
  then have val: "16 * hexValue (channelHex v ! 0) + hexValue (channelHex v ! 1) = v"
    by (simp add: channelHex_byte [OF assms(1)] hexValue_hexDigit)
  have e5: "channelHex 5 = ''05''"
    by (simp add: channelHex_byte hexDigit_def)
  have e255: "channelHex 255 = ''ff''"
    by (simp add: channelHex_byte hexDigit_def)
  have cat: "rgbToHex r g b = CHR ''#'' # channelHex r @ channelHex g @ channelHex b"
    by (simp add: rgbToHex_def)
  have len7: "length (rgbToHex r g b) = 7"
    by (simp add: cat channelHex_byte assms)
  have all: "set (tl (rgbToHex r g b)) \<subseteq> set ''0123456789abcdef''"
    using digits [OF assms(2)] digits [OF assms(3)] digits [OF assms(4)]
    by (simp add: cat)
  from digits [OF assms(1)] len val e5 e255 cat len7 all show ?thesis
    by blast
qed

text \<open>Claim C2, at the channel 171 and the colour (255, 128, 5).\<close>

theorem channelHex_two_lowercase_digits_witness:
  "(171::nat) \<le> 255 \<and> channelHex 171 = ''ab'' \<and> rgbToHex 255 128 5 = ''#ff8005''"
proof -
  have h: "(171::nat) \<le> 255" "(255::nat) \<le> 255" "(128::nat) \<le> 255" "(5::nat) \<le> 255"
    by simp_all
  show ?thesis
    using channelHex_two_lowercase_digits [OF h]
    by (simp add: channelHex_byte hexDigit_def)
qed

subsection \<open>Rounding to doubles\<close>

text \<open>The equations that evaluate a rounding at a given number.\<close>

lemmas fl_eval = fl_def binade_def roundEven_def pow2_def Let_def compute_bitlen

lemma fl_not_NaN: "fl x \<noteq> NaN"
  by (simp add: fl_def Let_def)











subsection \<open>From percentages to pixels\<close>

text \<open>
  The conversion at the percentages the component starts with, and at 70 and 35 per
  cent of 720 rows, where the rounded product lies just below 504 and 252.
\<close>

lemma toPixel_50_of_1280: "toPixel (Fin 50) 1280 = Fin 640"
  by (simp add: toPixel_def fl_eval)

lemma toPixel_20_of_720: "toPixel (Fin 20) 720 = Fin 144"
  by (simp add: toPixel_def fl_eval)

lemma toPixel_80_of_720: "toPixel (Fin 80) 720 = Fin 576"
  by (simp add: toPixel_def fl_eval)


lemma toPixel_35_of_720: "toPixel (Fin 35) 720 = Fin 251"
  by (simp add: toPixel_def fl_eval)

lemma toPixel_100_of_1280: "toPixel (Fin 100) 1280 = Fin 1280"
  by (simp add: toPixel_def fl_eval)


lemma updateColors_active:
  assumes "videoEl refs = Some video" and "isActive s"
    and "videoWidth video \<noteq> 0" and "videoHeight video \<noteq> 0"
  shows "updateColors refs s =
         (case getColorAtPoint refs (toPixel (pt_x (topPoint s)) (videoWidth video))
                 (toPixel (pt_y (topPoint s)) (videoHeight video)) of
            Inl e \<Rightarrow> Inl e
          | Inr newTopColor \<Rightarrow>
              (case getColorAtPoint refs (toPixel (pt_x (bottomPoint s)) (videoWidth video))
                      (toPixel (pt_y (bottomPoint s)) (videoHeight video)) of
                 Inl e \<Rightarrow> Inl e
               | Inr newBottomColor \<Rightarrow>
                   Inr (s\<lparr>topColor := newTopColor, bottomColor := newBottomColor\<rparr>)))"
  using assms by (simp add: updateColors_def Let_def)

lemma getColorAtPoint_white:
  assumes "0 \<le> i" and "i < 1280" and "0 \<le> j" and "j < 720"
  shows "getColorAtPoint whiteRefs (Fin (of_int i)) (Fin (of_int j)) =
         Inr \<lparr>hex = ''#ffffff'', rgb = \<lparr>rgb_r = 255, rgb_g = 255, rgb_b = 255\<rparr>\<rparr>"
  using assms
  by (simp add: getColorAtPoint_def getImageData_def whiteRefs_def Let_def rgbToHex_white)



text \<open>
  Claim C1 says that a percentage from 0 to 100 always gives a column below the video's
  width. At 100 it does not: the column is the width itself, one past the last column.
  A drag onto or past the right edge of the container stores 100, and the next tick
  reads outside the frame: on an all-white frame the top sample comes out black, while
  the bottom sample, taken inside the frame, is white.
\<close>

theorem right_edge_sample_outside_frame:
  "toPixel (Fin 100) 1280 = Fin 1280 \<and>
   toLong (toPixel (Fin 100) 1280) = Inr 1280 \<and>
   topPoint (drag [MouseDown Top, MouseMove \<lparr>clientX = 900, clientY = 90\<rparr> (Some box)]
               (start (Inr 1) whiteRefs init)) = \<lparr>pt_x = Fin 100, pt_y = Fin 20\<rparr> \<and>
   hex (topColor (tick whiteRefs
     (drag [MouseDown Top, MouseMove \<lparr>clientX = 900, clientY = 90\<rparr> (Some box)]
        (start (Inr 1) whiteRefs init)))) = ''#000000'' \<and>
   hex (bottomColor (tick whiteRefs
     (drag [MouseDown Top, MouseMove \<lparr>clientX = 900, clientY = 90\<rparr> (Some box)]
        (start (Inr 1) whiteRefs init)))) = ''#ffffff''"
proof -
  define s0 where "s0 = start (Inr 1) whiteRefs init"
  define s1 where "s1 = s0\<lparr>isDragging := Some Top, topPoint := \<lparr>pt_x = Fin 100, pt_y = Fin 20\<rparr>\<rparr>"
  have s0: "isActive s0" "interval s0" "bottomPoint s0 = \<lparr>pt_x = Fin 50, pt_y = Fin 80\<rparr>"
    by (simp_all add: s0_def start_def startCamera_def samplingEffect_def init_def)
  have moved: "drag [MouseDown Top, MouseMove \<lparr>clientX = 900, clientY = 90\<rparr> (Some box)] s0 = s1"
    by (simp add: s1_def drag_def handleMouseDown_def handleMouseMove_def box_def js_sub_def
        fl_eval)
  have s1: "isActive s1" "interval s1" "topPoint s1 = \<lparr>pt_x = Fin 100, pt_y = Fin 20\<rparr>"
    "bottomPoint s1 = \<lparr>pt_x = Fin 50, pt_y = Fin 80\<rparr>"
    using s0 by (simp_all add: s1_def)
  have video: "videoEl whiteRefs =
      Some \<lparr>videoWidth = 1280, videoHeight = 720, frame = (\<lambda>x y. (255, 255, 255, 255))\<rparr>"
    by (simp add: whiteRefs_def)
  have edge: "getColorAtPoint whiteRefs (Fin 1280) (Fin 144) =
      Inr \<lparr>hex = ''#000000'', rgb = \<lparr>rgb_r = 0, rgb_g = 0, rgb_b = 0\<rparr>\<rparr>"
    by (simp add: getColorAtPoint_def getImageData_def whiteRefs_def Let_def rgbToHex_black)
  have inside: "getColorAtPoint whiteRefs (Fin 640) (Fin 576) =
      Inr \<lparr>hex = ''#ffffff'', rgb = \<lparr>rgb_r = 255, rgb_g = 255, rgb_b = 255\<rparr>\<rparr>"
    using getColorAtPoint_white [of 640 576] by simp
  have "updateColors whiteRefs s1 =
      Inr (s1\<lparr>topColor := \<lparr>hex = ''#000000'', rgb = \<lparr>rgb_r = 0, rgb_g = 0, rgb_b = 0\<rparr>\<rparr>,
              bottomColor :=
                \<lparr>hex = ''#ffffff'', rgb = \<lparr>rgb_r = 255, rgb_g = 255, rgb_b = 255\<rparr>\<rparr>\<rparr>)"
    using updateColors_active [OF video s1(1)] s1 edge inside
    by (simp add: toPixel_100_of_1280 toPixel_50_of_1280 toPixel_20_of_720 toPixel_80_of_720)
  then have ticked: "tick whiteRefs s1 =
      s1\<lparr>topColor := \<lparr>hex = ''#000000'', rgb = \<lparr>rgb_r = 0, rgb_g = 0, rgb_b = 0\<rparr>\<rparr>,
         bottomColor := \<lparr>hex = ''#ffffff'', rgb = \<lparr>rgb_r = 255, rgb_g = 255, rgb_b = 255\<rparr>\<rparr>\<rparr>"
    using s1(2) by (simp add: tick_def)
  have long: "toLong (Fin 1280) = Inr 1280"
    by simp
  show ?thesis
    unfolding s0_def [symmetric]
    by (simp add: moved ticked s1 long toPixel_100_of_1280)
qed

subsection \<open>The fallback sample\<close>

text \<open>
  Claim C10. \<open>getColorAtPoint\<close> has a value for every input, and when the video element,
  the canvas or the 2D context is missing that value is the black sample, with the hex
  string \<open>#000000\<close> and the channels (0, 0, 0). Both colour cells start with the same
  sample, and the points start at (50, 20) and (50, 80).
\<close>

theorem getColorAtPoint_fallback:
  assumes "videoEl refs = None \<or> \<not> canvasEl refs \<or> \<not> ctx2d refs"
  shows "getColorAtPoint refs x y =
           Inr \<lparr>hex = ''#000000'', rgb = \<lparr>rgb_r = 0, rgb_g = 0, rgb_b = 0\<rparr>\<rparr> \<and>
         topColor init = \<lparr>hex = ''#000000'', rgb = \<lparr>rgb_r = 0, rgb_g = 0, rgb_b = 0\<rparr>\<rparr> \<and>
         bottomColor init = \<lparr>hex = ''#000000'', rgb = \<lparr>rgb_r = 0, rgb_g = 0, rgb_b = 0\<rparr>\<rparr> \<and>
         topPoint init = \<lparr>pt_x = Fin 50, pt_y = Fin 20\<rparr> \<and>
         bottomPoint init = \<lparr>pt_x = Fin 50, pt_y = Fin 80\<rparr>"
  using assms
  by (auto simp: getColorAtPoint_def black_def init_def split: option.splits)

text \<open>Claim C10, with the video missing, the canvas missing and the context missing.\<close>

theorem getColorAtPoint_fallback_witness:
  "getColorAtPoint \<lparr>videoEl = None, canvasEl = True, ctx2d = True\<rparr> (Fin 640) (Fin 144) =
     Inr black \<and>
   getColorAtPoint (whiteRefs\<lparr>canvasEl := False\<rparr>) (Fin 640) (Fin 144) = Inr black \<and>
   getColorAtPoint (whiteRefs\<lparr>ctx2d := False\<rparr>) NaN NaN = Inr black"
  using
    getColorAtPoint_fallback [of "\<lparr>videoEl = None, canvasEl = True, ctx2d = True\<rparr>"
      "Fin 640" "Fin 144"]
    getColorAtPoint_fallback [of "whiteRefs\<lparr>canvasEl := False\<rparr>" "Fin 640" "Fin 144"]
    getColorAtPoint_fallback [of "whiteRefs\<lparr>ctx2d := False\<rparr>" NaN NaN]
  by (simp add: black_def)

subsection \<open>Dragging keeps the points in range\<close>

lemma clamp_between:
  "v \<noteq> NaN \<Longrightarrow> js_between 0 100 (js_max 0 (js_min 100 v))"
  by (cases v) simp_all

lemma percent_not_NaN:
  assumes "\<not> (w = 0 \<and> js_sub a b = Fin 0)"
  shows "js_mul (js_div (js_sub a b) w) 100 \<noteq> NaN"
proof (cases "js_sub a b")
  case (Fin c)
  show ?thesis
  proof (cases "w = 0")
    case True
    with assms Fin show ?thesis by simp
  next
    case False
    then have "js_div (js_sub a b) w = fl (c / w)" using Fin by simp
    then show ?thesis
      using fl_not_NaN [of "c / w"] fl_not_NaN
      by (cases "fl (c / w)") simp_all
  qed
next
  case PInf
  then show ?thesis by simp
next
  case NInf
  then show ?thesis by simp
next
  case NaN
  then show ?thesis using fl_not_NaN [of "a - b"] by (simp add: js_sub_def)
qed

lemma handleMouseMove_in_range:
  assumes "\<not> zeroOverZero (MouseMove e container)"
    and "pointInRange (topPoint s)" and "pointInRange (bottomPoint s)"
  shows "pointInRange (topPoint (handleMouseMove e container s)) \<and>
         pointInRange (bottomPoint (handleMouseMove e container s))"
proof (cases container)
  case None
  then show ?thesis using assms by (simp add: handleMouseMove_def split: option.splits)
next
  case (Some rect)
  define x where "x = js_mul (js_div (js_sub (clientX e) (rect_left rect)) (rect_width rect)) 100"
  define y where "y = js_mul (js_div (js_sub (clientY e) (rect_top rect)) (rect_height rect)) 100"
  define cx where "cx = js_max 0 (js_min 100 x)"
  define cy where "cy = js_max 0 (js_min 100 y)"
  from assms(1) Some have "x \<noteq> NaN" and "y \<noteq> NaN"
    unfolding x_def y_def by (auto intro!: percent_not_NaN simp del: js_div.simps js_mul.simps)
  then have range: "js_between 0 100 cx" "js_between 0 100 cy"
    unfolding cx_def cy_def by (simp_all add: clamp_between del: js_max.simps js_min.simps)
  have moved: "handleMouseMove e (Some rect) s =
      (case isDragging s of
         None \<Rightarrow> s
       | Some point \<Rightarrow>
           (case point of
              Top \<Rightarrow> s\<lparr>topPoint := \<lparr>pt_x = cx, pt_y = cy\<rparr>\<rparr>
            | Bottom \<Rightarrow> s\<lparr>bottomPoint := \<lparr>pt_x = cx, pt_y = cy\<rparr>\<rparr>))"
    unfolding handleMouseMove_def Let_def cx_def cy_def x_def y_def
    by (simp only: option.case)
  show ?thesis
    using assms(2,3) range
    by (simp add: Some moved pointInRange_def split: option.splits PointName.splits)
qed

lemma dragStep_in_range:
  assumes "\<not> zeroOverZero ev"
    and "pointInRange (topPoint s)" and "pointInRange (bottomPoint s)"
  shows "pointInRange (topPoint (dragStep s ev)) \<and> pointInRange (bottomPoint (dragStep s ev))"
proof (cases ev)
  case (MouseDown point)
  then show ?thesis using assms by (simp add: handleMouseDown_def)
next
  case (MouseMove e container)
  then show ?thesis using assms handleMouseMove_in_range [of e container s] by simp
next
  case MouseUp
  then show ?thesis using assms by (simp add: handleMouseUp_def)
qed

lemma drag_in_range:
  assumes "\<forall>ev \<in> set evs. \<not> zeroOverZero ev"
    and "pointInRange (topPoint s)" and "pointInRange (bottomPoint s)"
  shows "pointInRange (topPoint (drag evs s)) \<and> pointInRange (bottomPoint (drag evs s))"
  using assms unfolding drag_def
proof (induction evs arbitrary: s)
  case Nil
  then show ?case by simp
next
  case (Cons ev evs)
  from Cons.prems have "pointInRange (topPoint (dragStep s ev)) \<and>
      pointInRange (bottomPoint (dragStep s ev))"
    by (intro dragStep_in_range) simp_all
  with Cons.IH [of "dragStep s ev"] Cons.prems(1) show ?case by simp
qed

text \<open>
  Claim C3 says that the stored percentages are in [0, 100] whatever the pointer does,
  as the handler's own comment (clamp values between 0 and 100) and the comments on the
  fields of \<open>SamplingPoint\<close> (percentage, 0 to 100) say too. With a container box of no
  extent and the pointer at its corner, both quotients are 0/0: \<open>Math.min\<close> and
  \<open>Math.max\<close> let \<open>NaN\<close> through, and \<open>NaN\<close> is what the handler stores, which is not a
  number from 0 to 100.
\<close>

theorem drag_flat_box_stores_NaN:
  "topPoint (drag [MouseDown Top, MouseMove \<lparr>clientX = 0, clientY = 0\<rparr> (Some flatBox)] init)
     = \<lparr>pt_x = NaN, pt_y = NaN\<rparr> \<and>
   \<not> pointInRange
       (topPoint (drag [MouseDown Top, MouseMove \<lparr>clientX = 0, clientY = 0\<rparr> (Some flatBox)]
          init))"
  by (simp add: drag_def handleMouseDown_def handleMouseMove_def init_def flatBox_def Let_def
      pointInRange_def js_sub_def fl_def)

text \<open>
  That quotient is the only way out of the range. After any sequence of mouse-down,
  mouse-move and mouse-up events in which no move meets a box of zero width with the
  pointer at its left edge, or of zero height with the pointer at its top, both stored
  points have their x and y in [0, 100]: wherever the pointer is, inside the container
  or outside it.
\<close>

lemma drag_keeps_points_in_range:
  assumes "\<forall>ev \<in> set evs. \<not> zeroOverZero ev"
  shows "pointInRange (topPoint (drag evs init)) \<and> pointInRange (bottomPoint (drag evs init))"
  using assms by (intro drag_in_range) (simp_all add: init_def pointInRange_def)

text \<open>
  A drag of the top point to a pointer right of the container and above it: the point
  ends at (100, 0).
\<close>

lemma drag_past_corner_is_clamped:
  "topPoint
     (drag [MouseDown Top, MouseMove \<lparr>clientX = 900, clientY = - 30\<rparr> (Some box), MouseUp] init)
     = \<lparr>pt_x = Fin 100, pt_y = Fin 0\<rparr> \<and>
   pointInRange (topPoint
     (drag [MouseDown Top, MouseMove \<lparr>clientX = 900, clientY = - 30\<rparr> (Some box), MouseUp] init)) \<and>
   pointInRange (bottomPoint
     (drag [MouseDown Top, MouseMove \<lparr>clientX = 900, clientY = - 30\<rparr> (Some box), MouseUp] init))"
proof -
  have h: "\<forall>ev \<in> set [MouseDown Top, MouseMove \<lparr>clientX = 900, clientY = - 30\<rparr> (Some box),
      MouseUp]. \<not> zeroOverZero ev"
    by (simp add: box_def)
  have "topPoint
     (drag [MouseDown Top, MouseMove \<lparr>clientX = 900, clientY = - 30\<rparr> (Some box), MouseUp] init)
     = \<lparr>pt_x = Fin 100, pt_y = Fin 0\<rparr>"
    by (simp add: drag_def handleMouseDown_def handleMouseMove_def handleMouseUp_def init_def
        box_def js_sub_def fl_eval)
  with drag_keeps_points_in_range [OF h] show ?thesis by simp
qed

subsection \<open>Starting and stopping\<close>

lemma updateColors_inactive: "\<not> isActive s \<Longrightarrow> updateColors refs s = Inr s"
  by (simp add: updateColors_def split: option.splits)

lemma tick_inactive: "\<not> isActive s \<Longrightarrow> tick refs s = s"
  by (simp add: tick_def updateColors_inactive)

lemma ticks_inactive: "\<not> isActive s \<Longrightarrow> ticks rs s = s"
  by (induction rs) (simp_all add: tick_inactive)

text \<open>
  Claim C4. When the camera request fails on a component that is not active,
  \<open>startCamera\<close> shows the destructive toast and writes to the console, and nothing else
  changes: the component is still not active, the stream handle is still null, no
  interval is registered, and timer ticks leave the state as it is.
\<close>

theorem startCamera_failure_changes_nothing:
  assumes "\<not> isActive s" and "streamRef s = None"
  shows "startCamera (Inl err) refs s =
           s\<lparr>consoleErrors := consoleErrors s @ [''Error accessing camera:''],
             toasts := toasts s @ [cameraError]\<rparr> \<and>
         variant cameraError = Destructive \<and>
         \<not> isActive (startCamera (Inl err) refs s) \<and>
         streamRef (startCamera (Inl err) refs s) = None \<and>
         interval (startCamera (Inl err) refs s) = interval s \<and>
         running (startCamera (Inl err) refs s) = running s \<and>
         start (Inl err) refs s =
           s\<lparr>consoleErrors := consoleErrors s @ [''Error accessing camera:''],
             toasts := toasts s @ [cameraError], interval := False\<rparr> \<and>
         ticks rs (startCamera (Inl err) refs s) = startCamera (Inl err) refs s \<and>
         ticks rs (start (Inl err) refs s) = start (Inl err) refs s"
proof -
  have eq: "startCamera (Inl err) refs s =
           s\<lparr>consoleErrors := consoleErrors s @ [''Error accessing camera:''],
             toasts := toasts s @ [cameraError]\<rparr>"
    by (simp add: startCamera_def)
  have eq2: "start (Inl err) refs s =
           s\<lparr>consoleErrors := consoleErrors s @ [''Error accessing camera:''],
             toasts := toasts s @ [cameraError], interval := False\<rparr>"
    using assms(1) by (simp add: start_def samplingEffect_def eq)
  have i1: "\<not> isActive (startCamera (Inl err) refs s)"
    using assms(1) by (simp add: eq)
  have i2: "\<not> isActive (start (Inl err) refs s)"
    using assms(1) by (simp add: eq2)
  show ?thesis
    using assms ticks_inactive [OF i1] ticks_inactive [OF i2]
    by (simp add: eq eq2 cameraError_def)
qed

text \<open>Claim C4, for a refused permission on the component as it is first rendered.\<close>

theorem startCamera_failure_changes_nothing_witness:
  "\<not> isActive init \<and> streamRef init = None \<and>
   \<not> isActive (startCamera (Inl NotAllowedError) whiteRefs init) \<and>
   streamRef (startCamera (Inl NotAllowedError) whiteRefs init) = None \<and>
   toasts (startCamera (Inl NotAllowedError) whiteRefs init) = [cameraError] \<and>
   ticks [whiteRefs, whiteRefs] (start (Inl NotAllowedError) whiteRefs init) =
     start (Inl NotAllowedError) whiteRefs init"
proof -
  have h: "\<not> isActive init" "streamRef init = None"
    by (simp_all add: init_def)
  have t: "toasts (startCamera (Inl NotAllowedError) whiteRefs init) = [cameraError]"
    by (simp add: startCamera_def init_def)
  from startCamera_failure_changes_nothing
    [OF h, of NotAllowedError whiteRefs "[whiteRefs, whiteRefs]"] h t
  show ?thesis by blast
qed

lemma held_init: "held init"
  by (simp add: held_def init_def)

lemma held_clickButton: "held s \<Longrightarrow> held (clickButton refs s settled)"
  by (cases settled)
    (auto simp: held_def clickButton_def requestCamera_def start_def stop_def startCamera_def
      stopCamera_def samplingEffect_def Let_def split: option.splits)

lemma held_clicks: "held s \<Longrightarrow> held (foldl (clickButton refs) s xs)"
  by (induction xs arbitrary: s) (simp_all add: held_clickButton)

text \<open>
  Claim C5 says that a second start with no stop in between does not leak the first
  stream. Two clicks before the first camera request settles both call \<open>startCamera\<close>,
  the component not being active yet. When the two requests settle, with the streams 1
  and 2, the second overwrites the handle: the tracks of stream 1 keep running and
  nothing holds stream 1 any more. Its tracks were not stopped, and the second start was
  not refused. The same two calls of \<open>startCamera\<close>, one after the other, are the second
  half of the statement.
\<close>

theorem second_start_leaks_first_stream:
  "leaked (foldl (buttonStep whiteRefs) init [Click, Click, Settle (Inr 1), Settle (Inr 2)])
     = {1} \<and>
   streamRef (foldl (buttonStep whiteRefs) init [Click, Click, Settle (Inr 1), Settle (Inr 2)])
     = Some 2 \<and>
   running (foldl (buttonStep whiteRefs) init [Click, Click, Settle (Inr 1), Settle (Inr 2)])
     = {1, 2} \<and>
   leaked (startCamera (Inr 2) whiteRefs (startCamera (Inr 1) whiteRefs init)) = {1} \<and>
   streamRef (startCamera (Inr 2) whiteRefs (startCamera (Inr 1) whiteRefs init)) = Some 2"
  by (auto simp: leaked_def requestCamera_def start_def startCamera_def samplingEffect_def
      init_def)

text \<open>
  Claim C5, amended. It is the button that refuses a second start: once the component
  is active a click runs \<open>stop\<close>, which stops the tracks of the stream held and drops the
  handle. So in every sequence of clicks in which each camera request settles before
  the next click, no running stream is left without a handle.
\<close>

theorem button_never_leaks:
  "leaked (foldl (clickButton refs) init xs) = {} \<and>
   (isActive s \<longrightarrow> buttonStep refs s Click = stop s) \<and>
   set_option (streamRef s) \<inter> running (stop s) = {} \<and>
   streamRef (stop s) = None"
proof -
  have "held (foldl (clickButton refs) init xs)"
    by (rule held_clicks [OF held_init])
  then have "leaked (foldl (clickButton refs) init xs) = {}"
    by (auto simp: held_def leaked_def)
  then show ?thesis
    by (auto simp: stop_def stopCamera_def samplingEffect_def Let_def split: option.splits)
qed

text \<open>
  Claim C5, amended, on three clicks (start with stream 1, stop, start with stream 3)
  and on a click made while stream 1 is held.
\<close>

theorem button_never_leaks_witness:
  "leaked (foldl (clickButton whiteRefs) init [Inr 1, Inr 2, Inr 3]) = {} \<and>
   isActive (start (Inr 1) whiteRefs init) \<and>
   buttonStep whiteRefs (start (Inr 1) whiteRefs init) Click =
     stop (start (Inr 1) whiteRefs init) \<and>
   running (stop (start (Inr 1) whiteRefs init)) = {} \<and>
   streamRef (foldl (clickButton whiteRefs) init [Inr 1, Inr 2, Inr 3]) = Some 3"
  using button_never_leaks
    [of whiteRefs "[Inr 1, Inr 2, Inr 3]" "start (Inr 1) whiteRefs init"]
  by (simp add: clickButton_def requestCamera_def start_def startCamera_def samplingEffect_def
      init_def stop_def stopCamera_def)

text \<open>
  Claim C6. After \<open>stop\<close> the interval is no longer registered, the tracks of the stream
  that was held are stopped, the handle is null and the component is not active; and
  whatever timer ticks follow, and even a direct call of \<open>updateColors\<close>, the state stays
  as \<open>stop\<close> left it, the two colours being those from before the stop.
\<close>

theorem stop_ends_sampling:
  "\<not> interval (stop s) \<and>
   \<not> isActive (stop s) \<and>
   streamRef (stop s) = None \<and>
   set_option (streamRef s) \<inter> running (stop s) = {} \<and>
   updateColors refs (stop s) = Inr (stop s) \<and>
   ticks rs (stop s) = stop s \<and>
   topColor (ticks rs (stop s)) = topColor s \<and>
   bottomColor (ticks rs (stop s)) = bottomColor s"
proof -
  have i: "\<not> isActive (stop s)"
    by (simp add: stop_def stopCamera_def samplingEffect_def Let_def split: option.splits)
  have c: "topColor (stop s) = topColor s \<and> bottomColor (stop s) = bottomColor s \<and>
      \<not> interval (stop s) \<and> streamRef (stop s) = None \<and>
      set_option (streamRef s) \<inter> running (stop s) = {}"
    by (auto simp: stop_def stopCamera_def samplingEffect_def Let_def split: option.splits)
  show ?thesis
    using i c by (simp add: ticks_inactive updateColors_inactive)
qed

subsection \<open>Copying a colour\<close>

text \<open>
  Claim C8. When the clipboard write is rejected, \<open>copyToClipboard\<close> writes to the
  console and changes nothing else: the copied flag, the pending timeouts, the toasts
  and the clipboard are as before.
\<close>

theorem copy_failure_changes_nothing:
  "copyToClipboard False h s = s\<lparr>consoleErrors := consoleErrors s @ [''Failed to copy:'']\<rparr> \<and>
   copiedColor (copyToClipboard False h s) = copiedColor s \<and>
   timeouts (copyToClipboard False h s) = timeouts s \<and>
   toasts (copyToClipboard False h s) = toasts s \<and>
   clipboard (copyToClipboard False h s) = clipboard s"
  by (simp add: copyToClipboard_def)




end
